theory Spec2Isabelle
  imports Complex_Main
begin

section \<open>Electricity price snapshot: update\_fallback\_data.py\<close>

text \<open>
  The script fetches (or synthesises) hourly electricity prices and writes them to
  \<^verbatim>\<open>data/electricity-prices.json\<close>. The embedding follows the four functions of
  the script: \<^verbatim>\<open>fetch_entsoe_data\<close>, \<^verbatim>\<open>generate_fallback_data\<close>,
  \<^verbatim>\<open>save_data\<close> and \<^verbatim>\<open>main\<close>.

  Conventions of the model:
  \<^item> Python exceptions are values of the type \<open>error\<close>; a function that may raise
    returns \<open>error + 'a\<close>, with \<open>Inl\<close> the exception.
  \<^item> Python floats are modelled as exact rationals (\<open>rat\<close>): every float is a rational,
    comparisons are the same, and \<^verbatim>\<open>round(x, 2)\<close> rounds the exact value to the
    nearest multiple of 1/100, ties to the even one.
  \<^item> The system clock, the random generator, the HTTP endpoint and the filesystem are
    inputs of the model.
\<close>

subsection \<open>Exceptions\<close>

datatype error =
    OverflowError
  | ValueError
  | ZeroDivisionError
  | StopIteration
  | RequestException string
  | PermissionError
  | FileExistsError
  | IsADirectoryError
  | NotADirectoryError
  | FileNotFoundError

subsection \<open>Aware datetimes\<close>

text \<open>
  A \<^verbatim>\<open>datetime\<close> with a fixed-offset \<^verbatim>\<open>tzinfo\<close>, as \<^verbatim>\<open>datetime.now(helsinki_tz)\<close>
  returns it. The calendar date is kept as its proleptic Gregorian ordinal
  (\<^verbatim>\<open>toordinal()\<close>), which is what the library's arithmetic works on; \<open>utcoffset\<close> is
  in seconds.
\<close>

record datetime =
  ordinal :: int
  hour :: int
  minute :: int
  second :: int
  microsecond :: int
  utcoffset :: int

definition MAXORDINAL :: int where
  "MAXORDINAL = 3652059"

text \<open>Wall-clock microseconds since ordinal 0, the quantity \<^verbatim>\<open>datetime.__add__\<close> builds.\<close>

definition wall_us :: "datetime \<Rightarrow> int" where
  "wall_us d =
     (((ordinal d * 24 + hour d) * 60 + minute d) * 60 + second d) * 1000000 + microsecond d"

text \<open>The instant on the UTC time line, in microseconds.\<close>

definition instant :: "datetime \<Rightarrow> int" where
  "instant d = wall_us d - utcoffset d * 1000000"

text \<open>\<^verbatim>\<open>timedelta(hours=i)\<close> and \<^verbatim>\<open>timedelta(days=n)\<close>, in microseconds.\<close>

definition timedelta_hours :: "int \<Rightarrow> int" where
  "timedelta_hours i = i * 3600000000"

definition timedelta_days :: "int \<Rightarrow> int" where
  "timedelta_days n = n * 86400000000"

text \<open>
  \<^verbatim>\<open>d + delta\<close>: the wall-clock total is split again into days, seconds and
  microseconds; the tzinfo is kept; a date outside 1..MAXORDINAL raises OverflowError.
\<close>

definition dt_add :: "datetime \<Rightarrow> int \<Rightarrow> error + datetime" where
  "dt_add d delta =
     (let total = wall_us d + delta;
          days = total div 86400000000;
          rem_us = total mod 86400000000;
          secs = rem_us div 1000000;
          us = rem_us mod 1000000;
          h = secs div 3600;
          r = secs mod 3600;
          m = r div 60;
          s = r mod 60
      in if 0 < days \<and> days \<le> MAXORDINAL
         then Inr \<lparr>ordinal = days, hour = h, minute = m, second = s,
                   microsecond = us, utcoffset = utcoffset d\<rparr>
         else Inl OverflowError)"

text \<open>
  \<^verbatim>\<open>a - b\<close> for two aware datetimes whose tzinfo objects differ: the wall-clock
  difference, corrected by the offsets when they are not equal. The result is a
  timedelta, in microseconds.
\<close>

definition dt_sub :: "datetime \<Rightarrow> datetime \<Rightarrow> int" where
  "dt_sub a b =
     (let base = wall_us a - wall_us b
      in if utcoffset a = utcoffset b then base
         else base + utcoffset b * 1000000 - utcoffset a * 1000000)"

subsection \<open>Rounding to two decimals\<close>

text \<open>Round half to even, as Python 3 rounds.\<close>

definition round_half_even :: "rat \<Rightarrow> int" where
  "round_half_even y =
     (let f = \<lfloor>y\<rfloor>; d = y - of_int f
      in if d < 1 / 2 then f
         else if 1 / 2 < d then f + 1
         else if even f then f else f + 1)"

definition round2 :: "rat \<Rightarrow> rat" where
  "round2 x = of_int (round_half_even (x * 100)) / 100"

subsection \<open>The price summary\<close>

text \<open>
  The dictionaries of the script. The \<^verbatim>\<open>'time'\<close> entries hold
  \<^verbatim>\<open>isoformat()\<close> strings; \<^verbatim>\<open>fromisoformat\<close> reads the same datetime back, so the
  model stores the datetime itself.
\<close>

record hourly_point =
  time :: datetime
  price :: rat

record extremum =
  ex_value :: rat
  ex_time :: datetime

record summary =
  last_updated :: datetime
  current_price :: rat
  average_price :: rat
  min_price :: extremum
  max_price :: extremum
  hourly_data :: "hourly_point list"

subsection \<open>Built-ins used by the generator\<close>

text \<open>\<^verbatim>\<open>min(xs)\<close> and \<^verbatim>\<open>max(xs)\<close>: the first extremal element; ValueError on [].\<close>

fun py_min :: "rat list \<Rightarrow> error + rat" where
  "py_min [] = Inl ValueError"
| "py_min (x # xs) = Inr (foldl (\<lambda>m y. if y < m then y else m) x xs)"

fun py_max :: "rat list \<Rightarrow> error + rat" where
  "py_max [] = Inl ValueError"
| "py_max (x # xs) = Inr (foldl (\<lambda>m y. if m < y then y else m) x xs)"

text \<open>\<^verbatim>\<open>min(xs, key=f)\<close>: the first element whose key is minimal.\<close>

fun py_min_key :: "('a \<Rightarrow> 'b::linorder) \<Rightarrow> 'a list \<Rightarrow> error + 'a" where
  "py_min_key f [] = Inl ValueError"
| "py_min_key f (x # xs) = Inr (foldl (\<lambda>m y. if f y < f m then y else m) x xs)"

text \<open>\<^verbatim>\<open>next(x for x in xs if p x)\<close>: the first match, StopIteration when there is none.\<close>

definition py_next :: "('a \<Rightarrow> bool) \<Rightarrow> 'a list \<Rightarrow> error + 'a" where
  "py_next p xs = (case find p xs of None \<Rightarrow> Inl StopIteration | Some x \<Rightarrow> Inr x)"

subsection \<open>generate\_fallback\_data\<close>

text \<open>The base price of the if/elif chain on \<^verbatim>\<open>hour_of_day\<close>.\<close>

definition base_price :: "int \<Rightarrow> rat" where
  "base_price hour_of_day =
     (if 0 \<le> hour_of_day \<and> hour_of_day < 6 then 6
      else if 6 \<le> hour_of_day \<and> hour_of_day < 9 then 8
      else if 9 \<le> hour_of_day \<and> hour_of_day < 17 then 12
      else if 17 \<le> hour_of_day \<and> hour_of_day < 22 then 10
      else 7)"

text \<open>
  The loop \<^verbatim>\<open>for i in range(-24, 24)\<close>. \<open>noise k\<close> is the value that the \<open>k\<close>-th call
  of \<^verbatim>\<open>random.uniform(-1.5, 1.5)\<close> of the run returns; \<open>k\<close> counts the iterations done,
  \<open>acc\<close> is \<^verbatim>\<open>hourly_data\<close> so far, and \<open>hr\<close> is the loop's variable \<^verbatim>\<open>hour\<close>.
\<close>

fun gen_loop ::
  "datetime \<Rightarrow> (nat \<Rightarrow> rat) \<Rightarrow> nat \<Rightarrow> int list \<Rightarrow> hourly_point list \<Rightarrow> error + hourly_point list"
where
  "gen_loop current_hour noise k [] acc = Inr acc"
| "gen_loop current_hour noise k (i # is) acc =
     (case dt_add current_hour (timedelta_hours i) of
        Inl e \<Rightarrow> Inl e
      | Inr hr \<Rightarrow>
          gen_loop current_hour noise (Suc k) is
            (acc @ [\<lparr>time = hr, price = round2 (base_price (hour hr) + noise k)\<rparr>]))"

text \<open>
  The function body after the clock has been read: \<open>now\<close> is the reading. \<open>mn\<close> and \<open>mx\<close>
  are the local variables \<^verbatim>\<open>min_price\<close> and \<^verbatim>\<open>max_price\<close>; the division raises
  ZeroDivisionError on an empty list.
\<close>

definition generate_fallback_data :: "datetime \<Rightarrow> (nat \<Rightarrow> rat) \<Rightarrow> error + summary" where
  "generate_fallback_data now noise =
     (let current_hour = now\<lparr>minute := 0, second := 0, microsecond := 0\<rparr>
      in case gen_loop current_hour noise 0 [-24..23] [] of
           Inl e \<Rightarrow> Inl e
         | Inr hourly \<Rightarrow>
            (let prices = map price hourly
             in if length prices = 0 then Inl ZeroDivisionError
                else
                 (let avg_price = sum_list prices / of_nat (length prices)
                  in case py_min prices of
                       Inl e \<Rightarrow> Inl e
                     | Inr mn \<Rightarrow>
                   (case py_max prices of
                       Inl e \<Rightarrow> Inl e
                     | Inr mx \<Rightarrow>
                   (case py_next (\<lambda>item. price item = mn) hourly of
                       Inl e \<Rightarrow> Inl e
                     | Inr min_item \<Rightarrow>
                   (case py_next (\<lambda>item. price item = mx) hourly of
                       Inl e \<Rightarrow> Inl e
                     | Inr max_item \<Rightarrow>
                   (case py_min_key (\<lambda>x. \<bar>dt_sub (time x) now\<bar>) hourly of
                       Inl e \<Rightarrow> Inl e
                     | Inr current_hour_data \<Rightarrow>
                        Inr \<lparr>last_updated = now,
                             current_price = price current_hour_data,
                             average_price = round2 avg_price,
                             min_price = \<lparr>ex_value = mn, ex_time = time min_item\<rparr>,
                             max_price = \<lparr>ex_value = mx, ex_time = time max_item\<rparr>,
                             hourly_data = hourly\<rparr>)))))))"

subsection \<open>The environment: standard output, HTTP endpoint, filesystem\<close>

text \<open>
  A printed line is its fixed text and the value formatted into it. \<^verbatim>\<open>print\<close> appends
  a line to standard output and does not fail.
\<close>

datatype out_line =
    Line string
  | LineInt string int
  | LineStr string string
  | LineErr string error
  | LinePrice string rat
  | LineTime string datetime

text \<open>
  The GET request of the fetcher. The two period parameters are the UTC datetimes that
  \<^verbatim>\<open>strftime("%Y%m%d%H%M")\<close> renders.
\<close>

record request =
  url :: string
  securityToken :: string
  documentType :: string
  in_Domain :: string
  out_Domain :: string
  periodStart :: datetime
  periodEnd :: datetime

text \<open>\<^verbatim>\<open>requests.get\<close> either raises or returns a response (status code and text).\<close>

datatype http_outcome = Raises error | Response int string

text \<open>
  What one run reads from outside: the clock at the two calls of \<^verbatim>\<open>datetime.now\<close>, the
  endpoint, and the values returned by \<^verbatim>\<open>random.uniform(-1.5, 1.5)\<close>.
\<close>

record env =
  env_now_fetch :: datetime
  env_http :: "request \<Rightarrow> http_outcome"
  env_now_gen :: datetime
  env_noise :: "nat \<Rightarrow> rat"

text \<open>
  The filesystem, as far as the writer touches it. A regular file holds either the JSON
  document of a summary (\<open>Some\<close>) or something else (\<open>None\<close>). \<open>may_write p\<close> says that
  the process may create entries in the directory \<open>p\<close>, or write the regular file \<open>p\<close>.
\<close>

datatype node = Directory | RegularFile "summary option"

record filesystem =
  entries :: "string \<Rightarrow> node option"
  may_write :: "string \<Rightarrow> bool"

record world =
  fs :: filesystem
  stdout :: "out_line list"

definition data_dir :: string where
  "data_dir = ''data''"

definition data_file :: string where
  "data_file = ''data/electricity-prices.json''"

definition cwd :: string where
  "cwd = ''.''"

text \<open>
  \<^verbatim>\<open>os.makedirs('data', exist_ok=True)\<close>: an existing directory is accepted; an
  existing entry that is not a directory raises FileExistsError; a missing directory is
  created when the working directory allows it, and PermissionError is raised otherwise.
\<close>

definition makedirs_exist_ok :: "filesystem \<Rightarrow> error + filesystem" where
  "makedirs_exist_ok f =
     (case entries f data_dir of
        Some Directory \<Rightarrow> Inr f
      | Some (RegularFile c) \<Rightarrow> Inl FileExistsError
      | None \<Rightarrow>
          if may_write f cwd
          then Inr (f\<lparr>entries := (entries f)(data_dir := Some Directory),
                      may_write := (may_write f)(data_dir := True)\<rparr>)
          else Inl PermissionError)"

text \<open>
  \<^verbatim>\<open>with open('data/electricity-prices.json', 'w') as f: json.dump(data, f, indent=2)\<close>:
  the file is created or truncated and then holds the JSON document of \<open>data\<close>.
\<close>

definition open_w_dump :: "filesystem \<Rightarrow> summary \<Rightarrow> error + filesystem" where
  "open_w_dump f data =
     (case entries f data_file of
        Some Directory \<Rightarrow> Inl IsADirectoryError
      | Some (RegularFile c) \<Rightarrow>
          if may_write f data_file
          then Inr (f\<lparr>entries := (entries f)(data_file := Some (RegularFile (Some data)))\<rparr>)
          else Inl PermissionError
      | None \<Rightarrow>
          (case entries f data_dir of
             Some Directory \<Rightarrow>
               if may_write f data_dir
               then Inr (f\<lparr>entries := (entries f)(data_file := Some (RegularFile (Some data))),
                           may_write := (may_write f)(data_file := True)\<rparr>)
               else Inl PermissionError
           | Some (RegularFile c) \<Rightarrow> Inl NotADirectoryError
           | None \<Rightarrow> Inl FileNotFoundError))"

subsection \<open>fetch\_entsoe\_data\<close>

text \<open>\<^verbatim>\<open>d.astimezone(pytz.UTC)\<close>: the offset is subtracted and the tzinfo becomes UTC.\<close>

definition astimezone_utc :: "datetime \<Rightarrow> error + datetime" where
  "astimezone_utc d =
     (case dt_add d (- (utcoffset d * 1000000)) of
        Inl e \<Rightarrow> Inl e
      | Inr u \<Rightarrow> Inr (u\<lparr>utcoffset := 0\<rparr>))"

text \<open>The body of the \<^verbatim>\<open>try\<close> block: it returns, or raises, and has printed lines.\<close>

definition fetch_try :: "env \<Rightarrow> out_line list \<Rightarrow> (error + summary option) \<times> out_line list" where
  "fetch_try e out =
     (let now = env_now_fetch e;
          midnight = now\<lparr>hour := 0, minute := 0, second := 0, microsecond := 0\<rparr>
      in case dt_add midnight (timedelta_days (- 1)) of
           Inl x \<Rightarrow> (Inl x, out)
         | Inr period_start \<Rightarrow>
        (case astimezone_utc period_start of
           Inl x \<Rightarrow> (Inl x, out)
         | Inr period_start_utc \<Rightarrow>
        (case dt_add midnight (timedelta_days 2) of
           Inl x \<Rightarrow> (Inl x, out)
         | Inr period_end \<Rightarrow>
        (case astimezone_utc period_end of
           Inl x \<Rightarrow> (Inl x, out)
         | Inr period_end_utc \<Rightarrow>
        (case env_http e
                \<lparr>url = ''https://web-api.tp.entsoe.eu/api'',
                 securityToken = ''ad66012e-e2fd-41bd-9306-443cb273854e'',
                 documentType = ''A44'',
                 in_Domain = ''10YFI-1--------U'',
                 out_Domain = ''10YFI-1--------U'',
                 periodStart = period_start_utc,
                 periodEnd = period_end_utc\<rparr> of
           Raises x \<Rightarrow> (Inl x, out)
         | Response status_code text \<Rightarrow>
             if status_code = 200
             then (Inr None,
                   out @ [Line ''Successfully fetched data from ENTSO-E API, but XML parsing not implemented''])
             else (Inr None,
                   out @ [LineInt ''Error fetching data from ENTSO-E API: '' status_code,
                          LineStr ''Response: '' text]))))))"

text \<open>The \<^verbatim>\<open>try\<close> with its handler \<^verbatim>\<open>except Exception as e\<close>.\<close>

definition fetch_entsoe_data ::
  "env \<Rightarrow> out_line list \<Rightarrow> (error + summary option) \<times> out_line list"
where
  "fetch_entsoe_data e out =
     (case fetch_try e out of
        (Inl x, out') \<Rightarrow>
          (Inr None, out' @ [LineErr ''Exception when fetching ENTSO-E data: '' x])
      | (Inr r, out') \<Rightarrow> (Inr r, out'))"

subsection \<open>save\_data\<close>

text \<open>
  No handler: what \<^verbatim>\<open>os.makedirs\<close> or \<^verbatim>\<open>open\<close> raises leaves the function. The world
  returned with an exception is the world at the moment of the raise.
\<close>

definition save_data :: "summary \<Rightarrow> world \<Rightarrow> (error + unit) \<times> world" where
  "save_data data w =
     (case makedirs_exist_ok (fs w) of
        Inl e \<Rightarrow> (Inl e, w)
      | Inr f1 \<Rightarrow>
          (case open_w_dump f1 data of
             Inl e \<Rightarrow> (Inl e, w\<lparr>fs := f1\<rparr>)
           | Inr f2 \<Rightarrow>
               (Inr (),
                w\<lparr>fs := f2,
                  stdout := stdout w @
                    [Line ''Data saved to data/electricity-prices.json'',
                     LinePrice ''Current price: '' (current_price data),
                     LineTime ''Last updated: '' (last_updated data)]\<rparr>)))"

subsection \<open>main\<close>

definition main :: "env \<Rightarrow> world \<Rightarrow> (error + unit) \<times> world" where
  "main e w =
     (let w1 = w\<lparr>stdout := stdout w @ [Line ''Fetching electricity prices for Finland...'']\<rparr>
      in case fetch_entsoe_data e (stdout w1) of
           (Inl x, out) \<Rightarrow> (Inl x, w1\<lparr>stdout := out\<rparr>)
         | (Inr entsoe_data, out) \<Rightarrow>
            (let w2 = w1\<lparr>stdout := out\<rparr>
             in case
                  (case entsoe_data of
                     Some d \<Rightarrow>
                       (Inr d,
                        w2\<lparr>stdout := stdout w2 @
                          [Line ''Successfully fetched and processed real-time data from ENTSO-E'']\<rparr>)
                   | None \<Rightarrow>
                       (case generate_fallback_data (env_now_gen e) (env_noise e) of
                          Inl x \<Rightarrow> (Inl x, w2)
                        | Inr d \<Rightarrow>
                            (Inr d,
                             w2\<lparr>stdout := stdout w2 @ [Line ''Using generated fallback data'']\<rparr>)))
                of
                  (Inl x, w3) \<Rightarrow> (Inl x, w3)
                | (Inr data, w3) \<Rightarrow>
                    (case save_data data w3 of
                       (Inl x, w4) \<Rightarrow> (Inl x, w4)
                     | (Inr u, w4) \<Rightarrow>
                         (Inr (),
                          w4\<lparr>stdout := stdout w4 @
                            [Line ''Data update completed successfully!'']\<rparr>))))"

subsection \<open>A concrete run\<close>

text \<open>
  The clock reads 2024-01-15T14:37:12.25+02:00 (ordinal 738900). The random draws hit
  both ends of the interval, repeat the lowest price, and produce rounding ties.
\<close>

definition now0 :: datetime where
  "now0 = \<lparr>ordinal = 738900, hour = 14, minute = 37, second = 12, microsecond = 250000,
            utcoffset = 7200\<rparr>"

definition noise0 :: "nat \<Rightarrow> rat" where
  "noise0 k =
     (if k = 10 \<or> k = 34 then - 3 / 2
      else if k = 24 then 3 / 2
      else (of_nat (k mod 7) - 3) / 8)"

definition point0 :: "int \<times> int \<times> rat \<Rightarrow> hourly_point" where
  "point0 = (\<lambda>(d, h, p).
     \<lparr>time = \<lparr>ordinal = d, hour = h, minute = 0, second = 0, microsecond = 0,
               utcoffset = 7200\<rparr>,
      price = p\<rparr>)"

definition points0 :: "hourly_point list" where
  "points0 = map point0
  [(738899, 14, 581 / 50), (738899, 15, 47 / 4), (738899, 16, 297 / 25),
   (738899, 17, 10), (738899, 18, 253 / 25), (738899, 19, 41 / 4),
   (738899, 20, 519 / 50), (738899, 21, 481 / 50), (738899, 22, 27 / 4),
   (738899, 23, 172 / 25), (738900, 0, 9 / 2), (738900, 1, 153 / 25),
   (738900, 2, 25 / 4), (738900, 3, 319 / 50), (738900, 4, 281 / 50),
   (738900, 5, 23 / 4), (738900, 6, 197 / 25), (738900, 7, 8),
   (738900, 8, 203 / 25), (738900, 9, 49 / 4), (738900, 10, 619 / 50),
   (738900, 11, 581 / 50), (738900, 12, 47 / 4), (738900, 13, 297 / 25),
   (738900, 14, 27 / 2), (738900, 15, 303 / 25), (738900, 16, 49 / 4),
   (738900, 17, 519 / 50), (738900, 18, 481 / 50), (738900, 19, 39 / 4),
   (738900, 20, 247 / 25), (738900, 21, 10), (738900, 22, 178 / 25),
   (738900, 23, 29 / 4), (738901, 0, 9 / 2), (738901, 1, 281 / 50),
   (738901, 2, 23 / 4), (738901, 3, 147 / 25), (738901, 4, 6),
   (738901, 5, 153 / 25), (738901, 6, 33 / 4), (738901, 7, 419 / 50),
   (738901, 8, 381 / 50), (738901, 9, 47 / 4), (738901, 10, 297 / 25),
   (738901, 11, 12), (738901, 12, 303 / 25), (738901, 13, 49 / 4)]"

definition summary0 :: summary where
  "summary0 =
     \<lparr>last_updated = now0, current_price = 303 / 25, average_price = 228 / 25,
      min_price = \<lparr>ex_value = 9 / 2, ex_time = time (point0 (738900, 0, 0))\<rparr>,
      max_price = \<lparr>ex_value = 27 / 2, ex_time = time (point0 (738900, 14, 0))\<rparr>,
      hourly_data = points0\<rparr>"

text \<open>
  Three endpoints (HTTP 500, HTTP 200, connection refused) and three filesystems: an empty
  working directory that may be written, one that may not, and one where the directory
  and the file exist and the file may not be written.
\<close>

definition env500 :: env where
  "env500 = \<lparr>env_now_fetch = now0,
              env_http = (\<lambda>req. Response 500 ''Internal Server Error''),
              env_now_gen = now0,
              env_noise = noise0\<rparr>"

definition env200 :: env where
  "env200 = \<lparr>env_now_fetch = now0,
              env_http = (\<lambda>req. Response 200 ''<Publication_MarketDocument/>''),
              env_now_gen = now0,
              env_noise = noise0\<rparr>"

definition env_down :: env where
  "env_down = \<lparr>env_now_fetch = now0,
              env_http = (\<lambda>req. Raises (RequestException ''connection refused'')),
              env_now_gen = now0,
              env_noise = noise0\<rparr>"

definition fs_empty :: filesystem where
  "fs_empty = \<lparr>entries = (\<lambda>p. None), may_write = (\<lambda>p. p = cwd)\<rparr>"

definition fs_readonly :: filesystem where
  "fs_readonly = \<lparr>entries = (\<lambda>p. None), may_write = (\<lambda>p. False)\<rparr>"

definition fs_locked_file :: filesystem where
  "fs_locked_file =
     \<lparr>entries = (\<lambda>p. if p = data_dir then Some Directory
                      else if p = data_file then Some (RegularFile None) else None),
      may_write = (\<lambda>p. False)\<rparr>"

definition world0 :: world where
  "world0 = \<lparr>fs = fs_empty, stdout = []\<rparr>"

definition world_readonly :: world where
  "world_readonly = \<lparr>fs = fs_readonly, stdout = []\<rparr>"

section \<open>Properties\<close>

subsection \<open>Datetime arithmetic\<close>

lemma dt_add_Inr:
  assumes "dt_add d delta = Inr d'"
  shows "\<lparr>ordinal = (wall_us d + delta) div 86400000000,
          hour = (wall_us d + delta) mod 86400000000 div 1000000 div 3600,
          minute = (wall_us d + delta) mod 86400000000 div 1000000 mod 3600 div 60,
          second = (wall_us d + delta) mod 86400000000 div 1000000 mod 3600 mod 60,
          microsecond = (wall_us d + delta) mod 86400000000 mod 1000000,
          utcoffset = utcoffset d\<rparr> = d'"
    and "0 < (wall_us d + delta) div 86400000000"
    and "(wall_us d + delta) div 86400000000 \<le> MAXORDINAL"
  using assms unfolding dt_add_def Let_def
  by (simp_all only: sum.inject sum.distinct split: if_splits)

lemma dt_add_total:
  assumes "0 < (wall_us d + delta) div 86400000000"
    and "(wall_us d + delta) div 86400000000 \<le> MAXORDINAL"
  shows "\<exists>d'. dt_add d delta = Inr d'"
  using assms unfolding dt_add_def Let_def by (simp only: if_True simp_thms) blast

lemma recombine:
  fixes T :: int
  assumes "T = a * 86400000000 + R" "R = S * 1000000 + u" "S = h * 3600 + r" "r = m * 60 + s"
  shows "(((a * 24 + h) * 60 + m) * 60 + s) * 1000000 + u = T"
  using assms by simp

lemma dt_add_wall_us:
  assumes "dt_add d delta = Inr d'"
  shows "wall_us d' = wall_us d + delta"
proof -
  define total where "total = wall_us d + delta"
  define rem_us where "rem_us = total mod 86400000000"
  define secs where "secs = rem_us div 1000000"
  define r where "r = secs mod 3600"
  have d': "wall_us d' = (((total div 86400000000 * 24 + secs div 3600) * 60 + r div 60) * 60 +
      r mod 60) * 1000000 + rem_us mod 1000000"
    unfolding dt_add_Inr(1)[OF assms, symmetric] wall_us_def total_def rem_us_def secs_def r_def
    by (simp only: datetime.select_convs)
  have e1: "total = (total div 86400000000) * 86400000000 + rem_us"
    unfolding rem_us_def by (rule div_mult_mod_eq[symmetric])
  have e2: "rem_us = secs * 1000000 + rem_us mod 1000000"
    unfolding secs_def by (rule div_mult_mod_eq[symmetric])
  have e3: "secs = (secs div 3600) * 3600 + r"
    unfolding r_def by (rule div_mult_mod_eq[symmetric])
  have e4: "r = (r div 60) * 60 + r mod 60"
    by (rule div_mult_mod_eq[symmetric])
  have "wall_us d' = total"
    unfolding d' by (rule recombine[OF e1 e2 e3 e4])
  then show ?thesis by (simp only: total_def)
qed

lemma dt_add_utcoffset:
  assumes "dt_add d delta = Inr d'"
  shows "utcoffset d' = utcoffset d"
  unfolding dt_add_Inr(1)[OF assms, symmetric] by (simp only: datetime.select_convs)

lemma dt_add_instant: "dt_add d delta = Inr d' \<Longrightarrow> instant d' = instant d + delta"
  by (simp add: instant_def dt_add_wall_us dt_add_utcoffset)


lemma dt_sub_instant: "dt_sub a b = instant a - instant b"
  by (simp add: dt_sub_def instant_def Let_def)

subsection \<open>Rounding and the built-ins\<close>





lemma foldl_min_conv: "foldl (\<lambda>m y. if y < m then y else m) (a::rat) xs = Min (set (a # xs))"
proof -
  have "(\<lambda>y m. if y < m then y else m) = (min :: rat \<Rightarrow> rat \<Rightarrow> rat)"
    by (auto simp: fun_eq_iff min_def)
  then have "foldl (\<lambda>m y. if y < m then y else m) a xs = fold min xs a"
    by (simp add: foldl_conv_fold)
  then show ?thesis by (simp only: Min.set_eq_fold)
qed

lemma foldl_max_conv: "foldl (\<lambda>m y. if m < y then y else m) (a::rat) xs = Max (set (a # xs))"
proof -
  have "(\<lambda>y m. if m < y then y else m) = (max :: rat \<Rightarrow> rat \<Rightarrow> rat)"
    by (auto simp: fun_eq_iff max_def)
  then have "foldl (\<lambda>m y. if m < y then y else m) a xs = fold max xs a"
    by (simp add: foldl_conv_fold)
  then show ?thesis by (simp only: Max.set_eq_fold)
qed

lemma py_min_Inr: "xs \<noteq> [] \<Longrightarrow> py_min xs = Inr (Min (set xs))"
  by (cases xs) (simp_all add: foldl_min_conv)

lemma py_max_Inr: "xs \<noteq> [] \<Longrightarrow> py_max xs = Inr (Max (set xs))"
  by (cases xs) (simp_all add: foldl_max_conv)

lemma py_min_Inl: "py_min xs = Inl e \<Longrightarrow> xs = []"
  by (cases xs) simp_all

lemma py_max_Inl: "py_max xs = Inl e \<Longrightarrow> xs = []"
  by (cases xs) simp_all

lemma py_next_Inr:
  "py_next p xs = Inr x \<Longrightarrow>
     \<exists>i<length xs. x = xs ! i \<and> p (xs ! i) \<and> (\<forall>j<i. \<not> p (xs ! j))"
  by (auto simp: py_next_def find_Some_iff split: option.splits)

lemma py_next_total: "\<exists>y\<in>set xs. p y \<Longrightarrow> \<exists>x. py_next p xs = Inr x"
  by (auto simp: py_next_def find_None_iff split: option.splits)

lemma foldl_min_key:
  fixes f :: "'a \<Rightarrow> 'b::linorder"
  shows "\<exists>i<length (a # xs).
           foldl (\<lambda>m y. if f y < f m then y else m) a xs = (a # xs) ! i \<and>
           (\<forall>j<length (a # xs). f ((a # xs) ! i) \<le> f ((a # xs) ! j)) \<and>
           (\<forall>j<i. f ((a # xs) ! i) < f ((a # xs) ! j))"
proof (induction xs rule: rev_induct)
  case Nil
  show ?case by simp
next
  case (snoc y xs)
  let ?g = "\<lambda>m y. if f y < f m then y else m"
  let ?ys = "a # xs"
  from snoc obtain i where i: "i < length ?ys" "foldl ?g a xs = ?ys ! i"
    and le: "\<forall>j<length ?ys. f (?ys ! i) \<le> f (?ys ! j)"
    and lt: "\<forall>j<i. f (?ys ! i) < f (?ys ! j)" by blast
  have nth_old: "\<And>j. j < length ?ys \<Longrightarrow> (a # xs @ [y]) ! j = ?ys ! j"
    by (metis append_Cons nth_append)
  have nth_new: "(a # xs @ [y]) ! length ?ys = y"
    by (metis append_Cons nth_append_length)
  show ?case
  proof (cases "f y < f (?ys ! i)")
    case True
    then have r: "foldl ?g a (xs @ [y]) = y" using i by simp
    have lty: "\<forall>j<length ?ys. f y < f (?ys ! j)" using True le by (meson less_le_trans)
    have a1: "\<forall>j<length (a # xs @ [y]). f y \<le> f ((a # xs @ [y]) ! j)"
    proof (intro allI impI)
      fix j assume "j < length (a # xs @ [y])"
      then consider "j < length ?ys" | "j = length ?ys" by fastforce
      then show "f y \<le> f ((a # xs @ [y]) ! j)"
      proof cases
        case 1 then show ?thesis using lty nth_old by (simp add: less_imp_le)
      next
        case 2 then show ?thesis using nth_new by simp
      qed
    qed
    have a2: "\<forall>j<length ?ys. f y < f ((a # xs @ [y]) ! j)"
      using lty nth_old by simp
    show ?thesis
      apply (rule exI[of _ "length ?ys"])
      using r a1 a2 nth_new by simp
  next
    case False
    then have r: "foldl ?g a (xs @ [y]) = ?ys ! i" using i by simp
    have a1: "\<forall>j<length (a # xs @ [y]). f (?ys ! i) \<le> f ((a # xs @ [y]) ! j)"
    proof (intro allI impI)
      fix j assume "j < length (a # xs @ [y])"
      then consider "j < length ?ys" | "j = length ?ys" by fastforce
      then show "f (?ys ! i) \<le> f ((a # xs @ [y]) ! j)"
      proof cases
        case 1 then show ?thesis using le nth_old by simp
      next
        case 2 then show ?thesis using False nth_new by simp
      qed
    qed
    have a2: "\<forall>j<i. f (?ys ! i) < f ((a # xs @ [y]) ! j)"
      using lt nth_old i(1) by simp
    show ?thesis
      apply (rule exI[of _ i])
      using r a1 a2 i(1) nth_old[OF i(1)] by simp
  qed
qed

lemma py_min_key_Inr:
  fixes f :: "'a \<Rightarrow> 'b::linorder"
  assumes "py_min_key f xs = Inr x"
  shows "\<exists>i<length xs. x = xs ! i \<and> (\<forall>j<length xs. f (xs ! i) \<le> f (xs ! j)) \<and>
           (\<forall>j<i. f (xs ! i) < f (xs ! j))"
proof (cases xs)
  case Nil
  with assms show ?thesis by simp
next
  case (Cons a ys)
  with assms have "x = foldl (\<lambda>m y. if f y < f m then y else m) a ys" by simp
  with foldl_min_key[where f=f and a=a and xs=ys] show ?thesis unfolding Cons by metis
qed

lemma py_min_key_Inl: "py_min_key f xs = Inl e \<Longrightarrow> xs = []"
  by (cases xs) simp_all

subsection \<open>The generator loop\<close>

lemma gen_loop_Inr:
  "gen_loop c noise k js acc = Inr r \<Longrightarrow>
     length r = length acc + length js \<and>
     take (length acc) r = acc \<and>
     (\<forall>j<length js.
        dt_add c (timedelta_hours (js ! j)) = Inr (time (r ! (length acc + j))) \<and>
        price (r ! (length acc + j)) =
          round2 (base_price (hour (time (r ! (length acc + j)))) + noise (k + j)))"
proof (induction js arbitrary: k acc)
  case Nil
  then show ?case by simp
next
  case (Cons i js)
  from Cons.prems obtain hr where hr: "dt_add c (timedelta_hours i) = Inr hr"
    and rec: "gen_loop c noise (Suc k) js
                (acc @ [\<lparr>time = hr, price = round2 (base_price (hour hr) + noise k)\<rparr>]) = Inr r"
    by (auto split: sum.splits)
  let ?pt = "\<lparr>time = hr, price = round2 (base_price (hour hr) + noise k)\<rparr>"
  from Cons.IH[OF rec] have len: "length r = length acc + 1 + length js"
    and tk: "take (length acc + 1) r = acc @ [?pt]"
    and rest: "\<forall>j<length js.
        dt_add c (timedelta_hours (js ! j)) = Inr (time (r ! (length acc + 1 + j))) \<and>
        price (r ! (length acc + 1 + j)) =
          round2 (base_price (hour (time (r ! (length acc + 1 + j)))) + noise (Suc k + j))"
    by simp_all
  have tk0: "take (length acc) r = acc"
  proof -
    have "take (length acc) (take (length acc + 1) r) = take (length acc) (acc @ [?pt])"
      using tk by simp
    then show ?thesis by (simp add: min_def)
  qed
  have r0: "r ! length acc = ?pt"
  proof -
    have "r ! length acc = take (length acc + 1) r ! length acc" by simp
    also have "\<dots> = (acc @ [?pt]) ! length acc" using tk by simp
    finally show ?thesis by simp
  qed
  have "dt_add c (timedelta_hours ((i # js) ! j)) = Inr (time (r ! (length acc + j))) \<and>
        price (r ! (length acc + j)) =
          round2 (base_price (hour (time (r ! (length acc + j)))) + noise (k + j))"
    if "j < length (i # js)" for j
  proof (cases j)
    case 0
    then show ?thesis using hr r0 by simp
  next
    case (Suc j')
    with that have "j' < length js" by simp
    with rest show ?thesis unfolding Suc by simp
  qed
  with len tk0 show ?case by simp
qed

lemma gen_loop_total:
  "(\<forall>i\<in>set js. \<exists>h. dt_add c (timedelta_hours i) = Inr h) \<Longrightarrow>
     \<exists>r. gen_loop c noise k js acc = Inr r"
  by (induction js arbitrary: k acc) auto

lemma offsets_length: "length [-24..23::int] = 48"
  by simp

lemma offsets_nth: "j < 48 \<Longrightarrow> [-24..23::int] ! j = int j - 24"
  using nth_upto[of "-24" j 23] by (simp del: upto_rec_numeral)

lemma generate_Inr:
  assumes "generate_fallback_data now noise = Inr s"
  shows "gen_loop (now\<lparr>minute := 0, second := 0, microsecond := 0\<rparr>) noise 0 [-24..23] []
           = Inr (hourly_data s)"
    and "last_updated s = now"
    and "average_price s =
           round2 (sum_list (map price (hourly_data s)) / of_nat (length (hourly_data s)))"
    and "py_min (map price (hourly_data s)) = Inr (ex_value (min_price s))"
    and "py_max (map price (hourly_data s)) = Inr (ex_value (max_price s))"
    and "\<exists>it. py_next (\<lambda>item. price item = ex_value (min_price s)) (hourly_data s) = Inr it \<and>
              ex_time (min_price s) = time it"
    and "\<exists>it. py_next (\<lambda>item. price item = ex_value (max_price s)) (hourly_data s) = Inr it \<and>
              ex_time (max_price s) = time it"
    and "\<exists>it. py_min_key (\<lambda>x. \<bar>dt_sub (time x) now\<bar>) (hourly_data s) = Inr it \<and>
              current_price s = price it"
proof -
  let ?c = "now\<lparr>minute := 0, second := 0, microsecond := 0\<rparr>"
  let ?offs = "[-24..23::int]"
  obtain hourly where h: "gen_loop ?c noise 0 ?offs [] = Inr hourly"
    using assms unfolding generate_fallback_data_def Let_def
    by (cases "gen_loop ?c noise 0 ?offs []") (simp_all del: upto_rec_numeral)
  have ne: "length (map price hourly) \<noteq> 0"
    using assms h unfolding generate_fallback_data_def Let_def
    by (simp del: upto_rec_numeral split: if_splits)
  obtain mn where mn: "py_min (map price hourly) = Inr mn"
    using assms h ne unfolding generate_fallback_data_def Let_def
    by (cases "py_min (map price hourly)") (simp_all del: upto_rec_numeral)
  obtain mx where mx: "py_max (map price hourly) = Inr mx"
    using assms h ne mn unfolding generate_fallback_data_def Let_def
    by (cases "py_max (map price hourly)") (simp_all del: upto_rec_numeral)
  obtain mni where mni: "py_next (\<lambda>item. price item = mn) hourly = Inr mni"
    using assms h ne mn mx unfolding generate_fallback_data_def Let_def
    by (cases "py_next (\<lambda>item. price item = mn) hourly") (simp_all del: upto_rec_numeral)
  obtain mxi where mxi: "py_next (\<lambda>item. price item = mx) hourly = Inr mxi"
    using assms h ne mn mx mni unfolding generate_fallback_data_def Let_def
    by (cases "py_next (\<lambda>item. price item = mx) hourly") (simp_all del: upto_rec_numeral)
  obtain cur where cur: "py_min_key (\<lambda>x. \<bar>dt_sub (time x) now\<bar>) hourly = Inr cur"
    using assms h ne mn mx mni mxi unfolding generate_fallback_data_def Let_def
    by (cases "py_min_key (\<lambda>x. \<bar>dt_sub (time x) now\<bar>) hourly") (simp_all del: upto_rec_numeral)
  have s: "s = \<lparr>last_updated = now, current_price = price cur,
                 average_price = round2 (sum_list (map price hourly) / of_nat (length (map price hourly))),
                 min_price = \<lparr>ex_value = mn, ex_time = time mni\<rparr>,
                 max_price = \<lparr>ex_value = mx, ex_time = time mxi\<rparr>,
                 hourly_data = hourly\<rparr>"
    using assms h ne mn mx mni mxi cur unfolding generate_fallback_data_def Let_def
    by (simp del: upto_rec_numeral)
  show "gen_loop ?c noise 0 ?offs [] = Inr (hourly_data s)" using h s by (simp del: upto_rec_numeral)
  show "last_updated s = now" using s by simp
  show "average_price s =
           round2 (sum_list (map price (hourly_data s)) / of_nat (length (hourly_data s)))"
    using s by simp
  show "py_min (map price (hourly_data s)) = Inr (ex_value (min_price s))" using s mn by simp
  show "py_max (map price (hourly_data s)) = Inr (ex_value (max_price s))" using s mx by simp
  show "\<exists>it. py_next (\<lambda>item. price item = ex_value (min_price s)) (hourly_data s) = Inr it \<and>
              ex_time (min_price s) = time it" using s mni by simp
  show "\<exists>it. py_next (\<lambda>item. price item = ex_value (max_price s)) (hourly_data s) = Inr it \<and>
              ex_time (max_price s) = time it" using s mxi by simp
  show "\<exists>it. py_min_key (\<lambda>x. \<bar>dt_sub (time x) now\<bar>) (hourly_data s) = Inr it \<and>
              current_price s = price it" using s cur by simp
qed

lemma generate_points:
  assumes "generate_fallback_data now noise = Inr s"
  shows "length (hourly_data s) = 48"
    and "j < 48 \<Longrightarrow>
           dt_add (now\<lparr>minute := 0, second := 0, microsecond := 0\<rparr>)
             (timedelta_hours (int j - 24)) = Inr (time (hourly_data s ! j))"
    and "j < 48 \<Longrightarrow>
           price (hourly_data s ! j) =
             round2 (base_price (hour (time (hourly_data s ! j))) + noise j)"
proof -
  note g = gen_loop_Inr[OF generate_Inr(1)[OF assms]]
  from g show "length (hourly_data s) = 48" by (simp only: offsets_length list.size)
  assume j: "j < 48"
  then have "j < length [-24..23::int]" by (simp only: offsets_length)
  with g have
    "dt_add (now\<lparr>minute := 0, second := 0, microsecond := 0\<rparr>)
             (timedelta_hours ([-24..23] ! j)) = Inr (time (hourly_data s ! (length ([]::hourly_point list) + j)))"
    "price (hourly_data s ! (length ([]::hourly_point list) + j)) =
             round2 (base_price (hour (time (hourly_data s ! (length ([]::hourly_point list) + j)))) + noise (0 + j))"
    by blast+
  then show "dt_add (now\<lparr>minute := 0, second := 0, microsecond := 0\<rparr>)
             (timedelta_hours (int j - 24)) = Inr (time (hourly_data s ! j))"
    "price (hourly_data s ! j) =
             round2 (base_price (hour (time (hourly_data s ! j))) + noise j)"
    using j by (simp_all add: offsets_nth del: upto_rec_numeral)
qed

subsection \<open>The generator returns, and the concrete run\<close>

lemma generate_example: "generate_fallback_data now0 noise0 = Inr summary0"
  by code_simp


lemma hour_shift_days:
  assumes "2 \<le> ordinal now" "ordinal now < MAXORDINAL" "0 \<le> hour now" "hour now < 24"
    and "- 24 \<le> i" "i \<le> 23"
  shows "\<exists>h. dt_add (now\<lparr>minute := 0, second := 0, microsecond := 0\<rparr>) (timedelta_hours i) = Inr h"
proof -
  let ?c = "now\<lparr>minute := 0, second := 0, microsecond := 0\<rparr>"
  define t where "t = wall_us ?c + timedelta_hours i"
  have t: "t = (ordinal now * 24 + hour now + i) * 3600000000"
    by (simp add: t_def wall_us_def timedelta_hours_def algebra_simps)
  have lo: "86400000000 \<le> t" unfolding t using assms by simp
  have "ordinal now * 24 + hour now + i \<le> 3652059 * 24 + 22"
    using assms by (simp add: MAXORDINAL_def)
  then have hi: "t \<le> 315537897600000000 + 79200000000" unfolding t by simp
  have p1: "0 < t div 86400000000"
    using lo by (simp add: pos_imp_zdiv_pos_iff)
  have "t div 86400000000 \<le> (315537897600000000 + 79200000000) div 86400000000"
    using hi by (intro zdiv_mono1) simp_all
  then have p2: "t div 86400000000 \<le> MAXORDINAL" by (simp add: MAXORDINAL_def)
  show ?thesis using dt_add_total[of ?c "timedelta_hours i"] p1 p2 unfolding t_def by blast
qed

lemma generate_total:
  assumes "2 \<le> ordinal now" "ordinal now < MAXORDINAL" "0 \<le> hour now" "hour now < 24"
  shows "\<exists>s. generate_fallback_data now noise = Inr s"
proof -
  let ?c = "now\<lparr>minute := 0, second := 0, microsecond := 0\<rparr>"
  have "\<forall>i\<in>set [-24..23]. \<exists>h. dt_add ?c (timedelta_hours i) = Inr h"
    using hour_shift_days[OF assms] by (simp del: upto_rec_numeral)
  from gen_loop_total[OF this] obtain hourly where
    h: "gen_loop ?c noise 0 [-24..23] [] = Inr hourly" by blast
  from gen_loop_Inr[OF h] have len: "length hourly = 48" by (simp only: offsets_length list.size)
  then have ne: "map price hourly \<noteq> []" by auto
  have mn: "py_min (map price hourly) = Inr (Min (set (map price hourly)))"
    using ne by (rule py_min_Inr)
  have mx: "py_max (map price hourly) = Inr (Max (set (map price hourly)))"
    using ne by (rule py_max_Inr)
  have "Min (set (map price hourly)) \<in> set (map price hourly)"
    using ne by (intro Min_in) simp_all
  then have "\<exists>y\<in>set hourly. price y = Min (set (map price hourly))" by auto
  from py_next_total[OF this] obtain mni where
    mni: "py_next (\<lambda>item. price item = Min (set (map price hourly))) hourly = Inr mni" by blast
  have "Max (set (map price hourly)) \<in> set (map price hourly)"
    using ne by (intro Max_in) simp_all
  then have "\<exists>y\<in>set hourly. price y = Max (set (map price hourly))" by auto
  from py_next_total[OF this] obtain mxi where
    mxi: "py_next (\<lambda>item. price item = Max (set (map price hourly))) hourly = Inr mxi" by blast
  obtain cur where cur: "py_min_key (\<lambda>x. \<bar>dt_sub (time x) now\<bar>) hourly = Inr cur"
    using len by (cases hourly) auto
  show ?thesis
    unfolding generate_fallback_data_def Let_def
    using h len mn mx mni mxi cur by (simp del: upto_rec_numeral)
qed

lemma generate_instant:
  assumes "generate_fallback_data now noise = Inr s" "k < 48"
  shows "instant (time (hourly_data s ! k)) =
           instant (now\<lparr>minute := 0, second := 0, microsecond := 0\<rparr>) + (int k - 24) * 3600000000"
  using dt_add_instant[OF generate_points(2)[OF assms]] by (simp add: timedelta_hours_def)

subsection \<open>The fetcher, the writer and main\<close>

lemma fetch_sentinel: "fst (fetch_entsoe_data e out) = Inr None"
  unfolding fetch_entsoe_data_def fetch_try_def Let_def
  by (simp split: sum.splits http_outcome.splits prod.splits)

lemma paths_distinct: "data_dir \<noteq> data_file" "data_file \<noteq> data_dir"
  by (simp_all add: data_dir_def data_file_def)

lemma main_unfold:
  "main e w =
     (case generate_fallback_data (env_now_gen e) (env_noise e) of
        Inl x \<Rightarrow>
          (Inl x,
           w\<lparr>stdout := snd (fetch_entsoe_data e
                (stdout w @ [Line ''Fetching electricity prices for Finland...'']))\<rparr>)
      | Inr d \<Rightarrow>
          (case save_data d
                  (w\<lparr>stdout := snd (fetch_entsoe_data e
                       (stdout w @ [Line ''Fetching electricity prices for Finland...''])) @
                       [Line ''Using generated fallback data'']\<rparr>) of
             (Inl x, w4) \<Rightarrow> (Inl x, w4)
           | (Inr u, w4) \<Rightarrow>
               (Inr (), w4\<lparr>stdout := stdout w4 @ [Line ''Data update completed successfully!'']\<rparr>)))"
proof -
  obtain r out where f: "fetch_entsoe_data e
       (stdout w @ [Line ''Fetching electricity prices for Finland...'']) = (r, out)"
    by (cases "fetch_entsoe_data e
       (stdout w @ [Line ''Fetching electricity prices for Finland...''])")
  with fetch_sentinel[of e "stdout w @ [Line ''Fetching electricity prices for Finland...'']"]
  have r: "r = Inr None" by simp
  show ?thesis
    unfolding main_def Let_def
    by (simp add: f r split: sum.splits prod.splits)
qed

lemma save_data_Inl:
  "fst (save_data d w) = Inl x \<longleftrightarrow>
     (makedirs_exist_ok (fs w) = Inl x \<or>
      (\<exists>f1. makedirs_exist_ok (fs w) = Inr f1 \<and> open_w_dump f1 d = Inl x))"
  unfolding save_data_def by (auto split: sum.splits)

lemma save_data_Inr:
  "fst (save_data d w) = Inr u \<longleftrightarrow>
     (\<exists>f1 f2. makedirs_exist_ok (fs w) = Inr f1 \<and> open_w_dump f1 d = Inr f2)"
  unfolding save_data_def by (auto split: sum.splits)

lemma save_data_fs:
  "makedirs_exist_ok (fs w) = Inr f1 \<Longrightarrow> open_w_dump f1 d = Inr f2 \<Longrightarrow>
     fs (snd (save_data d w)) = f2"
  unfolding save_data_def by simp

lemma makedirs_Inr:
  assumes "makedirs_exist_ok f = Inr f1"
  shows "entries f1 data_dir = Some Directory"
    and "entries f1 data_file = entries f data_file"
    and "may_write f1 data_file = may_write f data_file"
  using assms paths_distinct unfolding makedirs_exist_ok_def
  by (auto split: option.splits node.splits if_splits)

lemma makedirs_existing: "entries f data_dir = Some Directory \<Longrightarrow> makedirs_exist_ok f = Inr f"
  unfolding makedirs_exist_ok_def by simp

lemma open_w_dump_Inr:
  assumes "open_w_dump f d = Inr f2"
  shows "entries f2 data_file = Some (RegularFile (Some d))"
    and "may_write f2 data_file"
    and "entries f2 data_dir = entries f data_dir"
  using assms paths_distinct unfolding open_w_dump_def
  by (auto split: option.splits node.splits if_splits)

lemma open_w_dump_again:
  assumes "entries f data_file = Some (RegularFile c)" "may_write f data_file"
  shows "\<exists>f2. open_w_dump f d = Inr f2"
  using assms unfolding open_w_dump_def by simp

lemma save_data_errors:
  assumes "fst (save_data d w) = Inl x"
  shows "x = PermissionError \<or> x = FileExistsError \<or> x = IsADirectoryError"
proof -
  from assms[unfolded save_data_Inl] show ?thesis
  proof
    assume "makedirs_exist_ok (fs w) = Inl x"
    then show ?thesis unfolding makedirs_exist_ok_def
      by (auto split: option.splits node.splits if_splits)
  next
    assume "\<exists>f1. makedirs_exist_ok (fs w) = Inr f1 \<and> open_w_dump f1 d = Inl x"
    then obtain f1 where m: "makedirs_exist_ok (fs w) = Inr f1" and o: "open_w_dump f1 d = Inl x"
      by blast
    from o makedirs_Inr(1)[OF m] show ?thesis unfolding open_w_dump_def
      by (auto split: option.splits node.splits if_splits)
  qed
qed

lemma save_data_twice:
  assumes "fst (save_data d w) = Inr ()"
  shows "fst (save_data d' (snd (save_data d w))) = Inr ()"
proof -
  from assms[unfolded save_data_Inr] obtain f1 f2 where
    m: "makedirs_exist_ok (fs w) = Inr f1" and o: "open_w_dump f1 d = Inr f2" by blast
  have fs2: "fs (snd (save_data d w)) = f2" by (rule save_data_fs[OF m o])
  have dir: "entries f2 data_dir = Some Directory"
    using open_w_dump_Inr(3)[OF o] makedirs_Inr(1)[OF m] by simp
  have m2: "makedirs_exist_ok f2 = Inr f2" by (rule makedirs_existing[OF dir])
  from open_w_dump_again[OF open_w_dump_Inr(1)[OF o] open_w_dump_Inr(2)[OF o]]
  obtain f3 where "open_w_dump f2 d' = Inr f3" by blast
  with m2 fs2 show ?thesis unfolding save_data_Inr by auto
qed

lemma save_data_fs_only:
  assumes "fs w = fs w'"
  shows "fst (save_data d w) = fst (save_data d w')"
    and "fs (snd (save_data d w)) = fs (snd (save_data d w'))"
  using assms unfolding save_data_def by (auto split: sum.splits)

lemma main_generated:
  assumes "generate_fallback_data (env_now_gen e) (env_noise e) = Inr d"
  shows "fst (main e w) = fst (save_data d w)"
    and "fs (snd (main e w)) = fs (snd (save_data d w))"
proof -
  let ?w3 = "w\<lparr>stdout := snd (fetch_entsoe_data e
                       (stdout w @ [Line ''Fetching electricity prices for Finland...''])) @
                       [Line ''Using generated fallback data'']\<rparr>"
  have m: "main e w =
      (case save_data d ?w3 of
         (Inl x, w4) \<Rightarrow> (Inl x, w4)
       | (Inr u, w4) \<Rightarrow>
           (Inr (), w4\<lparr>stdout := stdout w4 @ [Line ''Data update completed successfully!'']\<rparr>))"
    unfolding main_unfold[of e w] assms by simp
  have same: "fs ?w3 = fs w" by simp
  obtain r w4 where sd: "save_data d ?w3 = (r, w4)" by (cases "save_data d ?w3")
  have "fst (main e w) = fst (save_data d ?w3)"
    unfolding m sd by (cases r) simp_all
  then show "fst (main e w) = fst (save_data d w)"
    using save_data_fs_only(1)[OF same] by simp
  have "fs (snd (main e w)) = fs (snd (save_data d ?w3))"
    unfolding m sd by (cases r) simp_all
  then show "fs (snd (main e w)) = fs (snd (save_data d w))"
    using save_data_fs_only(2)[OF same] by simp
qed

lemma main_generator_raises:
  assumes "generate_fallback_data (env_now_gen e) (env_noise e) = Inl x"
  shows "fst (main e w) = Inl x" and "fs (snd (main e w)) = fs w"
  unfolding main_unfold[of e w] assms by simp_all

lemma fetch_handler:
  "fetch_try e out = (Inl x, out') \<Longrightarrow>
     fetch_entsoe_data e out =
       (Inr None, out' @ [LineErr ''Exception when fetching ENTSO-E data: '' x])"
  unfolding fetch_entsoe_data_def by simp

lemma fetch_try_returns_None: "fst (fetch_try e out) = Inr r \<Longrightarrow> r = None"
  unfolding fetch_try_def Let_def
  by (simp split: sum.splits http_outcome.splits if_splits)

lemma fetch_try_example_500:
  "fetch_try env500 out =
     (Inr None, out @ [LineInt ''Error fetching data from ENTSO-E API: '' 500,
                       LineStr ''Response: '' ''Internal Server Error''])"
  by (simp add: fetch_try_def env500_def now0_def dt_add_def astimezone_utc_def wall_us_def
        timedelta_days_def MAXORDINAL_def Let_def)

lemma fetch_try_example_200:
  "fetch_try env200 out =
     (Inr None, out @ [Line ''Successfully fetched data from ENTSO-E API, but XML parsing not implemented''])"
  by (simp add: fetch_try_def env200_def now0_def dt_add_def astimezone_utc_def wall_us_def
        timedelta_days_def MAXORDINAL_def Let_def)

lemma fetch_try_example_down:
  "fetch_try env_down out = (Inl (RequestException ''connection refused''), out)"
  by (simp add: fetch_try_def env_down_def now0_def dt_add_def astimezone_utc_def wall_us_def
        timedelta_days_def MAXORDINAL_def Let_def)

lemma save_example:
  "save_data summary0 world0 =
     (Inr (),
      \<lparr>fs = \<lparr>entries = (\<lambda>p. if p = data_file then Some (RegularFile (Some summary0))
                             else if p = data_dir then Some Directory else None),
             may_write = (\<lambda>p. p = data_file \<or> p = data_dir \<or> p = cwd)\<rparr>,
       stdout = [Line ''Data saved to data/electricity-prices.json'',
                 LinePrice ''Current price: '' (303 / 25),
                 LineTime ''Last updated: '' now0]\<rparr>)"
  by (auto simp: save_data_def world0_def fs_empty_def makedirs_exist_ok_def open_w_dump_def
        data_dir_def data_file_def cwd_def summary0_def fun_eq_iff)

lemma save_example_readonly:
  "save_data summary0 world_readonly = (Inl PermissionError, world_readonly)"
  by (simp add: save_data_def world_readonly_def fs_readonly_def makedirs_exist_ok_def)

section \<open>The claims\<close>

text \<open>
  C3: every summary that the generator returns has 48 hourly points; point \<open>k\<close> is the
  truncated hour plus \<open>k - 24\<close> hours; consecutive points are exactly one hour
  (3600000000 microseconds) apart, so the instants are strictly increasing.
\<close>

theorem C3_generator_48_hourly_timestamps:
  assumes "generate_fallback_data now noise = Inr s"
  shows "length (hourly_data s) = 48 \<and>
         (\<forall>k<48. dt_add (now\<lparr>minute := 0, second := 0, microsecond := 0\<rparr>)
                    (timedelta_hours (int k - 24)) = Inr (time (hourly_data s ! k))) \<and>
         (\<forall>k<47. instant (time (hourly_data s ! Suc k)) =
                    instant (time (hourly_data s ! k)) + 3600000000) \<and>
         (\<forall>j<48. \<forall>k<48. j < k \<longrightarrow>
                    instant (time (hourly_data s ! j)) < instant (time (hourly_data s ! k)))"
proof (intro conjI allI impI)
  show "length (hourly_data s) = 48" by (rule generate_points(1)[OF assms])
next
  fix k :: nat assume "k < 48"
  then show "dt_add (now\<lparr>minute := 0, second := 0, microsecond := 0\<rparr>)
               (timedelta_hours (int k - 24)) = Inr (time (hourly_data s ! k))"
    by (rule generate_points(2)[OF assms])
next
  fix k :: nat assume "k < 47"
  then have "k < 48" "Suc k < 48" by simp_all
  then show "instant (time (hourly_data s ! Suc k)) =
               instant (time (hourly_data s ! k)) + 3600000000"
    by (simp add: generate_instant[OF assms])
next
  fix j k :: nat assume "j < 48" "k < 48" "j < k"
  then show "instant (time (hourly_data s ! j)) < instant (time (hourly_data s ! k))"
    by (simp add: generate_instant[OF assms])
qed

theorem C3_generator_48_hourly_timestamps_witness:
  "generate_fallback_data now0 noise0 = Inr summary0 \<and>
   length (hourly_data summary0) = 48 \<and>
   dt_add (now0\<lparr>minute := 0, second := 0, microsecond := 0\<rparr>) (timedelta_hours (- 24))
     = Inr (time (hourly_data summary0 ! 0)) \<and>
   dt_add (now0\<lparr>minute := 0, second := 0, microsecond := 0\<rparr>) (timedelta_hours 23)
     = Inr (time (hourly_data summary0 ! 47)) \<and>
   instant (time (hourly_data summary0 ! 1)) =
     instant (time (hourly_data summary0 ! 0)) + 3600000000 \<and>
   instant (time (hourly_data summary0 ! 0)) < instant (time (hourly_data summary0 ! 47))"
proof -
  note t = C3_generator_48_hourly_timestamps[OF generate_example]
  from t have a: "length (hourly_data summary0) = 48" by (rule conjunct1)
  from t have q: "\<forall>k<48. dt_add (now0\<lparr>minute := 0, second := 0, microsecond := 0\<rparr>)
                    (timedelta_hours (int k - 24)) = Inr (time (hourly_data summary0 ! k))"
    by blast
  from t have sp: "\<forall>k<47. instant (time (hourly_data summary0 ! Suc k)) =
                    instant (time (hourly_data summary0 ! k)) + 3600000000"
    by blast
  from t have mono: "\<forall>j<48. \<forall>k<48. j < k \<longrightarrow>
                    instant (time (hourly_data summary0 ! j)) <
                    instant (time (hourly_data summary0 ! k))"
    by blast
  from q[rule_format, of 0]
  have b: "dt_add (now0\<lparr>minute := 0, second := 0, microsecond := 0\<rparr>)
                 (timedelta_hours (- 24)) = Inr (time (hourly_data summary0 ! 0))"
    by simp
  from q[rule_format, of 47]
  have c: "dt_add (now0\<lparr>minute := 0, second := 0, microsecond := 0\<rparr>)
                 (timedelta_hours 23) = Inr (time (hourly_data summary0 ! 47))"
    by simp
  from sp[rule_format, of 0]
  have d: "instant (time (hourly_data summary0 ! 1)) =
     instant (time (hourly_data summary0 ! 0)) + 3600000000" by simp
  from mono[rule_format, of 0 47]
  have e: "instant (time (hourly_data summary0 ! 0)) <
     instant (time (hourly_data summary0 ! 47))" by simp
  from generate_example a b c d e show ?thesis by blast
qed

lemma generate_prices_nonempty:
  assumes "generate_fallback_data now noise = Inr s"
  shows "map price (hourly_data s) \<noteq> []"
  using generate_points(1)[OF assms] by auto

lemma generate_min_value:
  assumes "generate_fallback_data now noise = Inr s"
  shows "ex_value (min_price s) = Min (set (map price (hourly_data s)))"
  using generate_Inr(4)[OF assms] py_min_Inr[OF generate_prices_nonempty[OF assms]] by simp

lemma generate_max_value:
  assumes "generate_fallback_data now noise = Inr s"
  shows "ex_value (max_price s) = Max (set (map price (hourly_data s)))"
  using generate_Inr(5)[OF assms] py_max_Inr[OF generate_prices_nonempty[OF assms]] by simp

lemma generate_min_first:
  assumes "generate_fallback_data now noise = Inr s"
  shows "\<exists>i<48. price (hourly_data s ! i) = ex_value (min_price s) \<and>
                ex_time (min_price s) = time (hourly_data s ! i) \<and>
                (\<forall>j<i. price (hourly_data s ! j) \<noteq> ex_value (min_price s))"
proof -
  from generate_Inr(6)[OF assms] obtain it where
    it: "py_next (\<lambda>item. price item = ex_value (min_price s)) (hourly_data s) = Inr it"
    and tm: "ex_time (min_price s) = time it" by blast
  from py_next_Inr[OF it] obtain i where "i < length (hourly_data s)" "it = hourly_data s ! i"
    "price (hourly_data s ! i) = ex_value (min_price s)"
    "\<forall>j<i. price (hourly_data s ! j) \<noteq> ex_value (min_price s)" by blast
  then show ?thesis using tm generate_points(1)[OF assms] by auto
qed

lemma generate_max_first:
  assumes "generate_fallback_data now noise = Inr s"
  shows "\<exists>i<48. price (hourly_data s ! i) = ex_value (max_price s) \<and>
                ex_time (max_price s) = time (hourly_data s ! i) \<and>
                (\<forall>j<i. price (hourly_data s ! j) \<noteq> ex_value (max_price s))"
proof -
  from generate_Inr(7)[OF assms] obtain it where
    it: "py_next (\<lambda>item. price item = ex_value (max_price s)) (hourly_data s) = Inr it"
    and tm: "ex_time (max_price s) = time it" by blast
  from py_next_Inr[OF it] obtain i where "i < length (hourly_data s)" "it = hourly_data s ! i"
    "price (hourly_data s ! i) = ex_value (max_price s)"
    "\<forall>j<i. price (hourly_data s ! j) \<noteq> ex_value (max_price s)" by blast
  then show ?thesis using tm generate_points(1)[OF assms] by auto
qed

lemma generate_first_is_earliest:
  assumes "generate_fallback_data now noise = Inr s"
    and "i < 48" "j < 48" "\<forall>k<i. price (hourly_data s ! k) \<noteq> v"
    and "price (hourly_data s ! j) = v"
  shows "instant (time (hourly_data s ! i)) \<le> instant (time (hourly_data s ! j))"
proof -
  have "\<not> j < i" using assms(4,5) by blast
  then have "i \<le> j" by simp
  then show ?thesis
    using assms(2,3) by (simp add: generate_instant[OF assms(1)])
qed

text \<open>
  C4: in every summary that the generator returns the hourly list is not empty, every
  price lies between \<open>min_price.value\<close> and \<open>max_price.value\<close>, these two are the
  least and the greatest of the prices, and \<open>min_price.time\<close> (\<open>max_price.time\<close>) is the
  time of the first point whose price is the least (the greatest): no earlier point of
  the list has that price, and no point with that price lies before it in time.
\<close>

theorem C4_generator_min_max:
  assumes "generate_fallback_data now noise = Inr s"
  shows "hourly_data s \<noteq> [] \<and>
         (\<forall>p\<in>set (hourly_data s).
            ex_value (min_price s) \<le> price p \<and> price p \<le> ex_value (max_price s)) \<and>
         ex_value (min_price s) = Min (price ` set (hourly_data s)) \<and>
         ex_value (max_price s) = Max (price ` set (hourly_data s)) \<and>
         (\<exists>i<48. price (hourly_data s ! i) = ex_value (min_price s) \<and>
                  ex_time (min_price s) = time (hourly_data s ! i) \<and>
                  (\<forall>j<i. price (hourly_data s ! j) \<noteq> ex_value (min_price s)) \<and>
                  (\<forall>j<48. price (hourly_data s ! j) = ex_value (min_price s) \<longrightarrow>
                     instant (ex_time (min_price s)) \<le> instant (time (hourly_data s ! j)))) \<and>
         (\<exists>i<48. price (hourly_data s ! i) = ex_value (max_price s) \<and>
                  ex_time (max_price s) = time (hourly_data s ! i) \<and>
                  (\<forall>j<i. price (hourly_data s ! j) \<noteq> ex_value (max_price s)) \<and>
                  (\<forall>j<48. price (hourly_data s ! j) = ex_value (max_price s) \<longrightarrow>
                     instant (ex_time (max_price s)) \<le> instant (time (hourly_data s ! j))))"
proof -
  have ne: "hourly_data s \<noteq> []" using generate_prices_nonempty[OF assms] by simp
  have mn: "ex_value (min_price s) = Min (price ` set (hourly_data s))"
    using generate_min_value[OF assms] by simp
  have mx: "ex_value (max_price s) = Max (price ` set (hourly_data s))"
    using generate_max_value[OF assms] by simp
  have bounds: "\<forall>p\<in>set (hourly_data s).
            ex_value (min_price s) \<le> price p \<and> price p \<le> ex_value (max_price s)"
    unfolding mn mx by (simp add: Min_le Max_ge)
  from generate_min_first[OF assms] obtain i where i: "i < 48"
    "price (hourly_data s ! i) = ex_value (min_price s)"
    "ex_time (min_price s) = time (hourly_data s ! i)"
    "\<forall>j<i. price (hourly_data s ! j) \<noteq> ex_value (min_price s)" by blast
  have imin: "\<forall>j<48. price (hourly_data s ! j) = ex_value (min_price s) \<longrightarrow>
                     instant (ex_time (min_price s)) \<le> instant (time (hourly_data s ! j))"
    unfolding i(3) using generate_first_is_earliest[OF assms i(1) _ i(4)] by blast
  from generate_max_first[OF assms] obtain k where k: "k < 48"
    "price (hourly_data s ! k) = ex_value (max_price s)"
    "ex_time (max_price s) = time (hourly_data s ! k)"
    "\<forall>j<k. price (hourly_data s ! j) \<noteq> ex_value (max_price s)" by blast
  have kmax: "\<forall>j<48. price (hourly_data s ! j) = ex_value (max_price s) \<longrightarrow>
                     instant (ex_time (max_price s)) \<le> instant (time (hourly_data s ! j))"
    unfolding k(3) using generate_first_is_earliest[OF assms k(1) _ k(4)] by blast
  have A: "\<exists>i<48. price (hourly_data s ! i) = ex_value (min_price s) \<and>
                  ex_time (min_price s) = time (hourly_data s ! i) \<and>
                  (\<forall>j<i. price (hourly_data s ! j) \<noteq> ex_value (min_price s)) \<and>
                  (\<forall>j<48. price (hourly_data s ! j) = ex_value (min_price s) \<longrightarrow>
                     instant (ex_time (min_price s)) \<le> instant (time (hourly_data s ! j)))"
    using i imin by blast
  have B: "\<exists>i<48. price (hourly_data s ! i) = ex_value (max_price s) \<and>
                  ex_time (max_price s) = time (hourly_data s ! i) \<and>
                  (\<forall>j<i. price (hourly_data s ! j) \<noteq> ex_value (max_price s)) \<and>
                  (\<forall>j<48. price (hourly_data s ! j) = ex_value (max_price s) \<longrightarrow>
                     instant (ex_time (max_price s)) \<le> instant (time (hourly_data s ! j)))"
    using k kmax by blast
  from ne bounds mn mx A B show ?thesis by blast
qed

theorem C4_generator_min_max_witness:
  "generate_fallback_data now0 noise0 = Inr summary0 \<and>
   hourly_data summary0 \<noteq> [] \<and>
   ex_value (min_price summary0) = Min (price ` set (hourly_data summary0)) \<and>
   ex_value (max_price summary0) = Max (price ` set (hourly_data summary0)) \<and>
   ex_value (min_price summary0) = 9 / 2 \<and>
   price (hourly_data summary0 ! 10) = 9 / 2 \<and>
   price (hourly_data summary0 ! 34) = 9 / 2 \<and>
   ex_time (min_price summary0) = time (hourly_data summary0 ! 10) \<and>
   ex_value (max_price summary0) = 27 / 2 \<and>
   ex_time (max_price summary0) = time (hourly_data summary0 ! 24)"
proof -
  note t = C4_generator_min_max[OF generate_example]
  from t have a: "hourly_data summary0 \<noteq> []" by (rule conjunct1)
  from t have b: "ex_value (min_price summary0) = Min (price ` set (hourly_data summary0))"
    by blast
  from t have c: "ex_value (max_price summary0) = Max (price ` set (hourly_data summary0))"
    by blast
  have d: "ex_value (min_price summary0) = 9 / 2"
    "price (hourly_data summary0 ! 10) = 9 / 2"
    "price (hourly_data summary0 ! 34) = 9 / 2"
    "ex_time (min_price summary0) = time (hourly_data summary0 ! 10)"
    "ex_value (max_price summary0) = 27 / 2"
    "ex_time (max_price summary0) = time (hourly_data summary0 ! 24)"
    by (simp_all add: summary0_def points0_def point0_def)
  from generate_example a b c d show ?thesis by blast
qed

text \<open>
  C5: \<open>current_price\<close> is the price of a point whose instant is nearest to the
  generation instant \<open>now\<close>, and every earlier point of the list is strictly farther
  from \<open>now\<close>: on equal distance the first point is taken.
\<close>

theorem C5_generator_current_price:
  assumes "generate_fallback_data now noise = Inr s"
  shows "\<exists>i<48. current_price s = price (hourly_data s ! i) \<and>
           (\<forall>j<48. \<bar>instant (time (hourly_data s ! i)) - instant now\<bar>
                      \<le> \<bar>instant (time (hourly_data s ! j)) - instant now\<bar>) \<and>
           (\<forall>j<i. \<bar>instant (time (hourly_data s ! i)) - instant now\<bar>
                      < \<bar>instant (time (hourly_data s ! j)) - instant now\<bar>)"
proof -
  from generate_Inr(8)[OF assms] obtain it where
    it: "py_min_key (\<lambda>x. \<bar>dt_sub (time x) now\<bar>) (hourly_data s) = Inr it"
    and cp: "current_price s = price it" by blast
  from py_min_key_Inr[OF it] obtain i where i: "i < length (hourly_data s)"
    and eq: "it = hourly_data s ! i"
    and le: "\<forall>j<length (hourly_data s).
               \<bar>dt_sub (time (hourly_data s ! i)) now\<bar> \<le> \<bar>dt_sub (time (hourly_data s ! j)) now\<bar>"
    and lt: "\<forall>j<i. \<bar>dt_sub (time (hourly_data s ! i)) now\<bar>
                     < \<bar>dt_sub (time (hourly_data s ! j)) now\<bar>"
    by blast
  have len: "length (hourly_data s) = 48" by (rule generate_points(1)[OF assms])
  show ?thesis
    apply (rule exI[of _ i])
    using i eq le lt cp unfolding len dt_sub_instant by simp
qed

theorem C5_generator_current_price_witness:
  "generate_fallback_data now0 noise0 = Inr summary0 \<and>
   current_price summary0 = price (hourly_data summary0 ! 25) \<and>
   \<bar>instant (time (hourly_data summary0 ! 25)) - instant now0\<bar> = 1367750000 \<and>
   \<bar>instant (time (hourly_data summary0 ! 24)) - instant now0\<bar> = 2232250000"
proof -
  from C5_generator_current_price[OF generate_example] obtain i where
    i: "i < 48" and cp: "current_price summary0 = price (hourly_data summary0 ! i)"
    and le: "\<forall>j<48. \<bar>instant (time (hourly_data summary0 ! i)) - instant now0\<bar>
                      \<le> \<bar>instant (time (hourly_data summary0 ! j)) - instant now0\<bar>"
    by blast
  have d25: "\<bar>instant (time (hourly_data summary0 ! 25)) - instant now0\<bar> = 1367750000"
    and d24: "\<bar>instant (time (hourly_data summary0 ! 24)) - instant now0\<bar> = 2232250000"
    by (simp_all add: summary0_def points0_def point0_def now0_def instant_def wall_us_def)
  have near: "\<bar>instant (time (hourly_data summary0 ! i)) - instant now0\<bar> \<le> 1367750000"
    using le[rule_format, of 25] d25 by simp
  have at_i: "instant (time (hourly_data summary0 ! i)) =
      instant (now0\<lparr>minute := 0, second := 0, microsecond := 0\<rparr>) + (int i - 24) * 3600000000"
    by (rule generate_instant[OF generate_example i])
  have off: "instant (now0\<lparr>minute := 0, second := 0, microsecond := 0\<rparr>) - instant now0
      = - 2232250000"
    by (simp add: now0_def instant_def wall_us_def)
  from near at_i off have "\<bar>(int i - 24) * 3600000000 - 2232250000\<bar> \<le> 1367750000"
    by simp
  then have "(int i - 24) * 3600000000 \<le> 1 * 3600000000"
    and "0 * 3600000000 < (int i - 24) * 3600000000"
    by (simp_all add: abs_le_iff)
  then have "int i - 24 \<le> 1" and "0 < int i - 24"
    by (simp_all only: mult_le_cancel_right mult_less_cancel_right)
  then have "int i = 25" by simp
  then have "i = 25" by simp
  with cp have "current_price summary0 = price (hourly_data summary0 ! 25)" by simp
  with generate_example d25 d24 show ?thesis by blast
qed











text \<open>
  C1: the fetcher never raises and returns None; an exception raised inside the
  \<^verbatim>\<open>try\<close> block (the request raising, for one) is turned into None by the handler, and
  a response whose status is not 200 gives None. Then main runs the generator and hands
  its summary to the writer: the run ends as the writer ends, and when the directory and
  the file can be written the file holds the generated summary.
\<close>

theorem C1_fetcher_never_raises_fallback_written:
  "fst (fetch_entsoe_data e out) = Inr None \<and>
   (fetch_try e out = (Inl x, out') \<longrightarrow>
      fetch_entsoe_data e out =
        (Inr None, out' @ [LineErr ''Exception when fetching ENTSO-E data: '' x])) \<and>
   (generate_fallback_data (env_now_gen e) (env_noise e) = Inr d \<longrightarrow>
      fst (main e w) = fst (save_data d w) \<and>
      fs (snd (main e w)) = fs (snd (save_data d w))) \<and>
   (generate_fallback_data (env_now_gen e) (env_noise e) = Inr d \<and>
    makedirs_exist_ok (fs w) = Inr f1 \<and> open_w_dump f1 d = Inr f2 \<longrightarrow>
      fst (main e w) = Inr () \<and>
      entries (fs (snd (main e w))) data_file = Some (RegularFile (Some d)))"
proof (intro conjI impI)
  show "fst (fetch_entsoe_data e out) = Inr None" by (rule fetch_sentinel)
next
  assume "fetch_try e out = (Inl x, out')"
  then show "fetch_entsoe_data e out =
        (Inr None, out' @ [LineErr ''Exception when fetching ENTSO-E data: '' x])"
    by (rule fetch_handler)
next
  assume g: "generate_fallback_data (env_now_gen e) (env_noise e) = Inr d"
  show "fst (main e w) = fst (save_data d w)" by (rule main_generated(1)[OF g])
  show "fs (snd (main e w)) = fs (snd (save_data d w))" by (rule main_generated(2)[OF g])
next
  assume a: "generate_fallback_data (env_now_gen e) (env_noise e) = Inr d \<and>
    makedirs_exist_ok (fs w) = Inr f1 \<and> open_w_dump f1 d = Inr f2"
  then have g: "generate_fallback_data (env_now_gen e) (env_noise e) = Inr d"
    and m: "makedirs_exist_ok (fs w) = Inr f1" and o: "open_w_dump f1 d = Inr f2" by blast+
  have "fst (save_data d w) = Inr ()" unfolding save_data_Inr using m o by blast
  then show "fst (main e w) = Inr ()" using main_generated(1)[OF g] by simp
  have "fs (snd (main e w)) = f2"
    using main_generated(2)[OF g] save_data_fs[OF m o] by simp
  then show "entries (fs (snd (main e w))) data_file = Some (RegularFile (Some d))"
    using open_w_dump_Inr(1)[OF o] by simp
qed

lemma env_examples_gen:
  "generate_fallback_data (env_now_gen env500) (env_noise env500) = Inr summary0"
  "generate_fallback_data (env_now_gen env200) (env_noise env200) = Inr summary0"
  "generate_fallback_data (env_now_gen env_down) (env_noise env_down) = Inr summary0"
  using generate_example by (simp_all add: env500_def env200_def env_down_def)

lemma fs_empty_ops:
  "makedirs_exist_ok fs_empty =
     Inr (fs_empty\<lparr>entries := (entries fs_empty)(data_dir := Some Directory),
                   may_write := (may_write fs_empty)(data_dir := True)\<rparr>)"
  "open_w_dump (fs_empty\<lparr>entries := (entries fs_empty)(data_dir := Some Directory),
                         may_write := (may_write fs_empty)(data_dir := True)\<rparr>) d =
     Inr (fs (snd (save_data d world0)))"
  by (simp_all add: fs_empty_def makedirs_exist_ok_def open_w_dump_def save_data_def world0_def
        data_dir_def data_file_def cwd_def)

theorem C1_fetcher_never_raises_fallback_written_witness:
  "fetch_try env_down [] = (Inl (RequestException ''connection refused''), []) \<and>
   fetch_entsoe_data env_down [] =
     (Inr None,
      [LineErr ''Exception when fetching ENTSO-E data: ''
         (RequestException ''connection refused'')]) \<and>
   fst (fetch_entsoe_data env500 []) = Inr None \<and>
   generate_fallback_data (env_now_gen env500) (env_noise env500) = Inr summary0 \<and>
   fst (main env500 world0) = Inr () \<and>
   entries (fs (snd (main env500 world0))) data_file = Some (RegularFile (Some summary0))"
proof -
  note t1 = C1_fetcher_never_raises_fallback_written
    [of env_down "[]" "RequestException ''connection refused''" "[]"]
  from t1 fetch_try_example_down[of "[]"]
  have a: "fetch_entsoe_data env_down [] =
     (Inr None,
      [LineErr ''Exception when fetching ENTSO-E data: ''
         (RequestException ''connection refused'')])" by simp
  note t2 = C1_fetcher_never_raises_fallback_written
    [of env500 "[]" _ _ summary0 world0
      "fs_empty\<lparr>entries := (entries fs_empty)(data_dir := Some Directory),
                 may_write := (may_write fs_empty)(data_dir := True)\<rparr>"
      "fs (snd (save_data summary0 world0))"]
  from t2 have b: "fst (fetch_entsoe_data env500 []) = Inr None" by (rule conjunct1)
  have fsw: "fs world0 = fs_empty" by (simp add: world0_def)
  from t2 env_examples_gen(1) fs_empty_ops(1) fs_empty_ops(2)[of summary0]
  have c: "fst (main env500 world0) = Inr () \<and>
   entries (fs (snd (main env500 world0))) data_file = Some (RegularFile (Some summary0))"
    unfolding fsw by blast
  from fetch_try_example_down[of "[]"] a b env_examples_gen(1) c show ?thesis by blast
qed

lemma dt_add_Inl: "dt_add d delta = Inl x \<Longrightarrow> x = OverflowError"
  unfolding dt_add_def Let_def
  by (simp only: sum.inject sum.distinct split: if_splits)

lemma astimezone_utc_Inl: "astimezone_utc d = Inl x \<Longrightarrow> x = OverflowError"
  unfolding astimezone_utc_def
  by (cases "dt_add d (- (utcoffset d * 1000000))") (simp_all add: dt_add_Inl)

lemma fetch_try_200:
  assumes "\<forall>req. env_http e req = Response 200 body"
  shows "fetch_try e out =
           (Inr None,
            out @ [Line ''Successfully fetched data from ENTSO-E API, but XML parsing not implemented''])
         \<or> fetch_try e out = (Inl OverflowError, out)"
proof -
  let ?mid = "(env_now_fetch e)\<lparr>hour := 0, minute := 0, second := 0, microsecond := 0\<rparr>"
  show ?thesis
  proof (cases "dt_add ?mid (timedelta_days (- 1))")
    case (Inl x)
    then show ?thesis using dt_add_Inl[OF Inl] by (simp add: fetch_try_def Let_def)
  next
    case a: (Inr period_start)
    show ?thesis
    proof (cases "astimezone_utc period_start")
      case (Inl x)
      then show ?thesis using astimezone_utc_Inl[OF Inl] a by (simp add: fetch_try_def Let_def)
    next
      case b: (Inr period_start_utc)
      show ?thesis
      proof (cases "dt_add ?mid (timedelta_days 2)")
        case (Inl x)
        then show ?thesis using dt_add_Inl[OF Inl] a b by (simp add: fetch_try_def Let_def)
      next
        case c: (Inr period_end)
        show ?thesis
        proof (cases "astimezone_utc period_end")
          case (Inl x)
          then show ?thesis using astimezone_utc_Inl[OF Inl] a b c
            by (simp add: fetch_try_def Let_def)
        next
          case d: (Inr period_end_utc)
          show ?thesis using a b c d assms by (simp add: fetch_try_def Let_def)
        qed
      qed
    qed
  qed
qed

text \<open>
  C2: a response with status 200 still gives None, because the body is never parsed;
  the \<^verbatim>\<open>try\<close> block returns nothing but None; and whenever main ends without an
  exception, the file holds the summary that the generator returned.
\<close>

theorem C2_status_200_sentinel_generator_persisted:
  "((\<forall>req. env_http e req = Response 200 body) \<longrightarrow>
      fst (fetch_entsoe_data e out) = Inr None \<and>
      (snd (fetch_entsoe_data e out) =
         out @ [Line ''Successfully fetched data from ENTSO-E API, but XML parsing not implemented'']
       \<or> snd (fetch_entsoe_data e out) =
         out @ [LineErr ''Exception when fetching ENTSO-E data: '' OverflowError])) \<and>
   (fst (fetch_try e out) = Inr r \<longrightarrow> r = None) \<and>
   (fst (main e w) = Inr () \<longrightarrow>
      (\<exists>d. generate_fallback_data (env_now_gen e) (env_noise e) = Inr d \<and>
           entries (fs (snd (main e w))) data_file = Some (RegularFile (Some d))))"
proof (intro conjI impI)
  assume h: "\<forall>req. env_http e req = Response 200 body"
  show "fst (fetch_entsoe_data e out) = Inr None" by (rule fetch_sentinel)
  show "snd (fetch_entsoe_data e out) =
         out @ [Line ''Successfully fetched data from ENTSO-E API, but XML parsing not implemented'']
       \<or> snd (fetch_entsoe_data e out) =
         out @ [LineErr ''Exception when fetching ENTSO-E data: '' OverflowError]"
    using fetch_try_200[OF h, of out] unfolding fetch_entsoe_data_def by auto
next
  assume "fst (fetch_try e out) = Inr r"
  then show "r = None" by (rule fetch_try_returns_None)
next
  assume ok: "fst (main e w) = Inr ()"
  show "\<exists>d. generate_fallback_data (env_now_gen e) (env_noise e) = Inr d \<and>
           entries (fs (snd (main e w))) data_file = Some (RegularFile (Some d))"
  proof (cases "generate_fallback_data (env_now_gen e) (env_noise e)")
    case (Inl x)
    from main_generator_raises(1)[OF Inl, of w] ok show ?thesis by simp
  next
    case (Inr d)
    from ok main_generated(1)[OF Inr, of w] have "fst (save_data d w) = Inr ()" by simp
    then obtain f1 f2 where m: "makedirs_exist_ok (fs w) = Inr f1"
      and o: "open_w_dump f1 d = Inr f2" unfolding save_data_Inr by blast
    have "fs (snd (main e w)) = f2"
      using main_generated(2)[OF Inr, of w] save_data_fs[OF m o] by simp
    with open_w_dump_Inr(1)[OF o] Inr show ?thesis by simp
  qed
qed

theorem C2_status_200_sentinel_generator_persisted_witness:
  "env_http env200 = (\<lambda>req. Response 200 ''<Publication_MarketDocument/>'') \<and>
   fetch_entsoe_data env200 [] =
     (Inr None,
      [Line ''Successfully fetched data from ENTSO-E API, but XML parsing not implemented'']) \<and>
   fst (main env200 world0) = Inr () \<and>
   generate_fallback_data (env_now_gen env200) (env_noise env200) = Inr summary0 \<and>
   entries (fs (snd (main env200 world0))) data_file = Some (RegularFile (Some summary0))"
proof -
  note t = C2_status_200_sentinel_generator_persisted
    [of env200 "''<Publication_MarketDocument/>''" "[]" None world0]
  have h: "env_http env200 = (\<lambda>req. Response 200 ''<Publication_MarketDocument/>'')"
    by (simp add: env200_def)
  then have h': "\<forall>req. env_http env200 req = Response 200 ''<Publication_MarketDocument/>''"
    by simp
  from t h' have s1: "fst (fetch_entsoe_data env200 []) = Inr None" by blast
  have s2: "snd (fetch_entsoe_data env200 []) =
      [Line ''Successfully fetched data from ENTSO-E API, but XML parsing not implemented'']"
    by (simp add: fetch_entsoe_data_def fetch_try_example_200)
  from s1 s2 have a: "fetch_entsoe_data env200 [] =
     (Inr None,
      [Line ''Successfully fetched data from ENTSO-E API, but XML parsing not implemented''])"
    by (simp add: prod_eq_iff)
  have fsw: "fs world0 = fs_empty" by (simp add: world0_def)
  have sv: "fst (save_data summary0 world0) = Inr ()"
    unfolding save_data_Inr fsw using fs_empty_ops(1) fs_empty_ops(2)[of summary0] by blast
  have ok: "fst (main env200 world0) = Inr ()"
    using main_generated(1)[OF env_examples_gen(2), of world0] sv by simp
  with t obtain d where
    d: "generate_fallback_data (env_now_gen env200) (env_noise env200) = Inr d"
    and f: "entries (fs (snd (main env200 world0))) data_file = Some (RegularFile (Some d))"
    by blast
  from d env_examples_gen(2) have "d = summary0" by simp
  with f have "entries (fs (snd (main env200 world0))) data_file =
      Some (RegularFile (Some summary0))" by simp
  with h a ok env_examples_gen(2) show ?thesis by blast
qed

text \<open>
  C8: the writer accepts a directory that is already there, so a second call after a
  successful one succeeds as well; it fails exactly when creating the directory or opening
  the file fails (permission denied, or the path is taken by an entry of the wrong kind);
  such an exception leaves the writer and, with it, main.
\<close>

theorem C8_writer_failure_propagates:
  "(entries (fs w) data_dir = Some Directory \<longrightarrow> makedirs_exist_ok (fs w) = Inr (fs w)) \<and>
   (fst (save_data d w) = Inr () \<longrightarrow> fst (save_data d' (snd (save_data d w))) = Inr ()) \<and>
   (fst (save_data d w) = Inl x \<longleftrightarrow>
      (makedirs_exist_ok (fs w) = Inl x \<or>
       (\<exists>f1. makedirs_exist_ok (fs w) = Inr f1 \<and> open_w_dump f1 d = Inl x))) \<and>
   (fst (save_data d w) = Inl x \<longrightarrow>
      x = PermissionError \<or> x = FileExistsError \<or> x = IsADirectoryError) \<and>
   (entries (fs w) data_dir = None \<and> \<not> may_write (fs w) cwd \<longrightarrow>
      fst (save_data d w) = Inl PermissionError) \<and>
   (entries (fs w) data_dir = Some Directory \<and>
    entries (fs w) data_file = Some (RegularFile c) \<and> \<not> may_write (fs w) data_file \<longrightarrow>
      fst (save_data d w) = Inl PermissionError) \<and>
   (generate_fallback_data (env_now_gen e) (env_noise e) = Inr d \<and>
    fst (save_data d w) = Inl x \<longrightarrow> fst (main e w) = Inl x)"
proof (intro conjI impI)
  assume "entries (fs w) data_dir = Some Directory"
  then show "makedirs_exist_ok (fs w) = Inr (fs w)" by (rule makedirs_existing)
next
  assume "fst (save_data d w) = Inr ()"
  then show "fst (save_data d' (snd (save_data d w))) = Inr ()" by (rule save_data_twice)
next
  show "fst (save_data d w) = Inl x \<longleftrightarrow>
      (makedirs_exist_ok (fs w) = Inl x \<or>
       (\<exists>f1. makedirs_exist_ok (fs w) = Inr f1 \<and> open_w_dump f1 d = Inl x))"
    by (rule save_data_Inl)
next
  assume "fst (save_data d w) = Inl x"
  then show "x = PermissionError \<or> x = FileExistsError \<or> x = IsADirectoryError"
    by (rule save_data_errors)
next
  assume "entries (fs w) data_dir = None \<and> \<not> may_write (fs w) cwd"
  then have "makedirs_exist_ok (fs w) = Inl PermissionError"
    by (simp add: makedirs_exist_ok_def)
  then show "fst (save_data d w) = Inl PermissionError" unfolding save_data_Inl by blast
next
  assume a: "entries (fs w) data_dir = Some Directory \<and>
    entries (fs w) data_file = Some (RegularFile c) \<and> \<not> may_write (fs w) data_file"
  then have "makedirs_exist_ok (fs w) = Inr (fs w)" by (simp add: makedirs_existing)
  moreover from a have "open_w_dump (fs w) d = Inl PermissionError"
    by (simp add: open_w_dump_def)
  ultimately show "fst (save_data d w) = Inl PermissionError" unfolding save_data_Inl by blast
next
  assume "generate_fallback_data (env_now_gen e) (env_noise e) = Inr d \<and>
    fst (save_data d w) = Inl x"
  then show "fst (main e w) = Inl x" using main_generated(1)[of e d w] by simp
qed

theorem C8_writer_failure_propagates_witness:
  "fst (save_data summary0 world0) = Inr () \<and>
   entries (fs (snd (save_data summary0 world0))) data_dir = Some Directory \<and>
   makedirs_exist_ok (fs (snd (save_data summary0 world0))) =
     Inr (fs (snd (save_data summary0 world0))) \<and>
   fst (save_data summary0 (snd (save_data summary0 world0))) = Inr () \<and>
   entries (fs world_readonly) data_dir = None \<and> \<not> may_write (fs world_readonly) cwd \<and>
   fst (save_data summary0 world_readonly) = Inl PermissionError \<and>
   makedirs_exist_ok (fs world_readonly) = Inl PermissionError \<and>
   fst (main env500 world_readonly) = Inl PermissionError \<and>
   fst (save_data summary0 \<lparr>fs = fs_locked_file, stdout = []\<rparr>) = Inl PermissionError"
proof -
  have ok: "fst (save_data summary0 world0) = Inr ()" by (simp add: save_example)
  have dir: "entries (fs (snd (save_data summary0 world0))) data_dir = Some Directory"
    using paths_distinct by (simp add: save_example)
  note t0 = C8_writer_failure_propagates
    [of "snd (save_data summary0 world0)" summary0 summary0 PermissionError None env500]
  from t0 dir have a: "makedirs_exist_ok (fs (snd (save_data summary0 world0))) =
     Inr (fs (snd (save_data summary0 world0)))" by blast
  note t1 = C8_writer_failure_propagates
    [of world0 summary0 summary0 PermissionError None env500]
  from t1 ok have b: "fst (save_data summary0 (snd (save_data summary0 world0))) = Inr ()"
    by blast
  note t2 = C8_writer_failure_propagates
    [of world_readonly summary0 summary0 PermissionError None env500]
  have ro: "entries (fs world_readonly) data_dir = None" "\<not> may_write (fs world_readonly) cwd"
    by (simp_all add: world_readonly_def fs_readonly_def)
  from t2 ro have c: "fst (save_data summary0 world_readonly) = Inl PermissionError" by blast
  from t2 c have "makedirs_exist_ok (fs world_readonly) = Inl PermissionError \<or>
       (\<exists>f1. makedirs_exist_ok (fs world_readonly) = Inr f1 \<and>
             open_w_dump f1 summary0 = Inl PermissionError)" by blast
  moreover have "makedirs_exist_ok (fs world_readonly) = Inl PermissionError"
    by (simp add: world_readonly_def fs_readonly_def makedirs_exist_ok_def)
  ultimately have c': "makedirs_exist_ok (fs world_readonly) = Inl PermissionError" by blast
  from t2 c env_examples_gen(1)
  have d: "fst (main env500 world_readonly) = Inl PermissionError" by blast
  note t3 = C8_writer_failure_propagates
    [of "\<lparr>fs = fs_locked_file, stdout = []\<rparr>" summary0 summary0 PermissionError None env500]
  have lk: "entries (fs \<lparr>fs = fs_locked_file, stdout = []\<rparr>) data_dir = Some Directory"
    "entries (fs \<lparr>fs = fs_locked_file, stdout = []\<rparr>) data_file = Some (RegularFile None)"
    "\<not> may_write (fs \<lparr>fs = fs_locked_file, stdout = []\<rparr>) data_file"
    using paths_distinct by (simp_all add: fs_locked_file_def)
  from t3 lk have e: "fst (save_data summary0 \<lparr>fs = fs_locked_file, stdout = []\<rparr>) =
      Inl PermissionError" by blast
  from ok dir a b ro c c' d e show ?thesis by blast
qed

end
